theory Spec2Isabelle
  imports Main
begin

section \<open>The error-button extension (src/src/index.ts)\<close>

text \<open>
  The extension watches notebook code cells for an error output, appends an
  ``Analyze Error'' button to the node of such a cell and, on a click, posts the prompt
  and the error text to a chat-completion endpoint and shows the answer in an output
  area appended to the same node. The model below follows \<^verbatim>\<open>index.ts\<close> function by
  function. The DOM node of a cell is the list of its children, the shared
  \<^verbatim>\<open>Configuration\<close> object is a field of the state, and a promise is split into what
  happens before the request is issued and what happens when it settles.
\<close>

subsection \<open>Configuration and the input dialog\<close>

record Config =
  SECRET_KEY :: string
  LANGUAGE :: string
  PROMPT :: string

text \<open>
  The initial \<^verbatim>\<open>Configuration\<close> object (lines 25--31). The preset prompt is a Korean
  sentence; it is taken as a parameter.
\<close>

definition Configuration_init :: "string \<Rightarrow> Config" where
  "Configuration_init preset = \<lparr>SECRET_KEY = [], LANGUAGE = ''KR'', PROMPT = preset\<rparr>"

text \<open>\<^verbatim>\<open>InputDialog.getValue()\<close>: the three fields as the user left them.\<close>

record dialog_value =
  secret_key :: string
  language :: string
  prompt :: string

text \<open>
  What \<^verbatim>\<open>await showDialog(...)\<close> delivers: whether the pressed button accepts
  (\<^verbatim>\<open>result.button.accept\<close>) and the content of the dialog's fields.
\<close>

record dialog_result =
  accept :: bool
  getValue :: dialog_value

text \<open>
  Lines 82--87 and, word for word, lines 164--169: the three assignments are made only
  under \<^verbatim>\<open>if (result.button.accept)\<close>.
\<close>

definition apply_dialog :: "dialog_result \<Rightarrow> Config \<Rightarrow> Config" where
  "apply_dialog result cfg =
     (if accept result then
        (let output = getValue result in
         cfg\<lparr>SECRET_KEY := secret_key output,
             LANGUAGE := language output,
             PROMPT := prompt output\<rparr>)
      else cfg)"


subsection \<open>Cells, outputs and the children of a cell's node\<close>

text \<open>
  One entry of \<^verbatim>\<open>codeCellModel.outputs\<close>: its \<^verbatim>\<open>type\<close> and the value of
  \<^verbatim>\<open>data['application/vnd.jupyter.stderr']\<close>, which is \<open>None\<close> when the key is absent
  (JavaScript's \<^verbatim>\<open>undefined\<close>).
\<close>

record output_entry =
  otype :: string
  stderr :: "string option"

text \<open>The argument of \<^verbatim>\<open>model.add\<close> in the click handler.\<close>

record stream_output =
  output_type :: string
  name :: string
  stream_text :: string

definition stdout :: "string \<Rightarrow> stream_output" where
  "stdout t = \<lparr>output_type = ''stream'', name = ''stdout'', stream_text = t\<rparr>"

text \<open>
  The button created by \<^verbatim>\<open>checkForErrors\<close>. \<open>errorMessage\<close> is the variable its
  \<^verbatim>\<open>onclick\<close> closure captures.
\<close>

record button =
  innerText :: string
  className :: string
  disabled :: bool
  errorMessage :: "string option"

text \<open>
  A child of \<^verbatim>\<open>cell.node\<close>: something the host rendered, a button of this extension,
  or the node of an \<^verbatim>\<open>OutputArea\<close> of this extension with the content of its model.
\<close>

datatype child =
    HostNode string
  | Button button
  | OutputAreaNode "stream_output list"

record cell =
  ctype :: string
  outputs :: "output_entry list"
  node :: "child list"

subsection \<open>checkForErrors and the scans that call it\<close>

text \<open>Lines 149--154 and 213: the only thing done to the node is \<^verbatim>\<open>appendChild\<close>.\<close>

definition checkForErrors :: "cell \<Rightarrow> cell" where
  "checkForErrors c =
     (if length (outputs c) > 0 \<and> otype (outputs c ! 0) = ''error'' then
        (let errorMessage = stderr (outputs c ! 0);
             errorButton = \<lparr>innerText = ''Analyze Error'', className = ''error-button'',
                            disabled = False, errorMessage = errorMessage\<rparr>
         in c\<lparr>node := node c @ [Button errorButton]\<rparr>)
      else c)"

text \<open>
  The body of the \<^verbatim>\<open>forEach\<close> of lines 100--106 and 109--119: only code cells are
  handed to \<^verbatim>\<open>checkForErrors\<close>.
\<close>

definition scan_cell :: "cell \<Rightarrow> cell" where
  "scan_cell c = (if ctype c = ''code'' then checkForErrors c else c)"

definition scan_widgets :: "cell list \<Rightarrow> cell list" where
  "scan_widgets widgets = map scan_cell widgets"

text \<open>The buttons of this extension among the children of a node.\<close>

fun is_Button :: "child \<Rightarrow> bool" where
  "is_Button (Button b) = True"
| "is_Button c = False"

fun is_OutputAreaNode :: "child \<Rightarrow> bool" where
  "is_OutputAreaNode (OutputAreaNode m) = True"
| "is_OutputAreaNode c = False"

definition controls :: "cell \<Rightarrow> child list" where
  "controls c = filter is_Button (node c)"

definition result_regions :: "cell \<Rightarrow> child list" where
  "result_regions c = filter is_OutputAreaNode (node c)"

text \<open>
  The condition of the specification for a cell to be flagged: a code cell, a non-empty
  output list, and a first output tagged \<^verbatim>\<open>"error"\<close>.
\<close>

definition spec_flagged :: "cell \<Rightarrow> bool" where
  "spec_flagged c =
     (ctype c = ''code'' \<and> outputs c \<noteq> [] \<and> otype (hd (outputs c)) = ''error'')"

subsection \<open>The remote call\<close>

record chat_message =
  role :: string
  content :: string

record request =
  url :: string
  model :: string
  messages :: "chat_message list"
  headers :: "(string \<times> string) list"

record choice =
  message :: chat_message

record response =
  choices :: "choice list"

text \<open>
  What a rejected promise carries. \<open>AxiosError\<close> is a rejection of \<^verbatim>\<open>axios.post\<close> with its
  message, \<open>TypeError\<close> the exception of reading \<^verbatim>\<open>choices[0].message\<close> when
  \<^verbatim>\<open>choices\<close> is empty.
\<close>

datatype js_error = AxiosError string | TypeError

fun error_message :: "js_error \<Rightarrow> string" where
  "error_message (AxiosError m) = m"
| "error_message TypeError = ''Cannot read properties of undefined (reading 'message')''"

text \<open>The arguments of \<^verbatim>\<open>axios.post\<close> in \<^verbatim>\<open>getErrorAnalysis\<close> (lines 127--141).\<close>

definition getErrorAnalysis_request :: "string \<Rightarrow> string \<Rightarrow> request" where
  "getErrorAnalysis_request prompt_text key =
     \<lparr>url = ''https://api.openai.com/v1/chat/completions'',
      model = ''gpt-3.5-turbo'',
      messages = [\<lparr>role = ''user'', content = prompt_text\<rparr>],
      headers = [(''Content-Type'', ''application/json''),
                 (''Authorization'', ''Bearer '' @ key)]\<rparr>"

text \<open>
  Lines 142--146, given how \<^verbatim>\<open>axios.post\<close> settled: the content of the first choice, or
  the error, which is logged and thrown again.
\<close>

definition getErrorAnalysis_result :: "js_error + response \<Rightarrow> js_error + string" where
  "getErrorAnalysis_result settled =
     (case settled of
        Inl error \<Rightarrow> Inl error
      | Inr resp \<Rightarrow>
          (case choices resp of
             [] \<Rightarrow> Inl TypeError
           | c # rest \<Rightarrow> Inr (content (message c))))"

text \<open>
  \<^verbatim>\<open>Configuration.PROMPT + errorMessage?.toString()\<close>: the optional call gives
  \<^verbatim>\<open>undefined\<close> for a missing payload, and \<^verbatim>\<open>+\<close> with a string on the left turns
  \<^verbatim>\<open>undefined\<close> into the nine characters \<^verbatim>\<open>undefined\<close>.
\<close>

definition optional_toString :: "string option \<Rightarrow> string option" where
  "optional_toString v = (case v of None \<Rightarrow> None | Some s \<Rightarrow> Some s)"

definition string_plus :: "string \<Rightarrow> string option \<Rightarrow> string" where
  "string_plus s v = s @ (case v of None \<Rightarrow> ''undefined'' | Some t \<Rightarrow> t)"

subsection \<open>The click handler of the error button\<close>

text \<open>
  The state the handler works on: the shared configuration, the cell whose node holds
  the button, the requests handed to \<^verbatim>\<open>axios.post\<close> so far, and what was written with
  \<^verbatim>\<open>console.error\<close>.
\<close>

record world =
  Configuration :: Config
  the_cell :: cell
  sent :: "request list"
  console :: "js_error list"

definition button_at :: "child list \<Rightarrow> nat \<Rightarrow> button option" where
  "button_at cs i =
     (if i < length cs then
        (case cs ! i of Button b \<Rightarrow> Some b | HostNode h \<Rightarrow> None | OutputAreaNode m \<Rightarrow> None)
      else None)"

definition area_at :: "child list \<Rightarrow> nat \<Rightarrow> stream_output list option" where
  "area_at cs i =
     (if i < length cs then
        (case cs ! i of OutputAreaNode m \<Rightarrow> Some m | HostNode h \<Rightarrow> None | Button b \<Rightarrow> None)
      else None)"

definition set_disabled :: "nat \<Rightarrow> bool \<Rightarrow> child list \<Rightarrow> child list" where
  "set_disabled i v cs =
     (case button_at cs i of
        None \<Rightarrow> cs
      | Some b \<Rightarrow> cs[i := Button (b\<lparr>disabled := v\<rparr>)])"

definition update_model ::
  "nat \<Rightarrow> (stream_output list \<Rightarrow> stream_output list) \<Rightarrow> child list \<Rightarrow> child list" where
  "update_model i f cs =
     (case area_at cs i of
        None \<Rightarrow> cs
      | Some m \<Rightarrow> cs[i := OutputAreaNode (f m)])"

text \<open>
  Lines 157--185 and 210, for the button that is child \<open>i\<close> of the node: the dialog is
  opened only when the key is empty, and whatever its result, the handler goes on to
  disable the button, fill a new model with the loading line, call
  \<^verbatim>\<open>getErrorAnalysis\<close> and append the node of the output area. The result is the new
  state and the position of the appended output area; \<open>None\<close> when child \<open>i\<close> is not a
  button, so that there is no handler to run.
\<close>

definition onclick_begin :: "nat \<Rightarrow> dialog_result \<Rightarrow> world \<Rightarrow> (world \<times> nat) option" where
  "onclick_begin i result w =
     (case button_at (node (the_cell w)) i of
        None \<Rightarrow> None
      | Some errorButton \<Rightarrow>
          (let cfg = (if SECRET_KEY (Configuration w) = []
                      then apply_dialog result (Configuration w)
                      else Configuration w);
               cs = set_disabled i True (node (the_cell w));
               req = getErrorAnalysis_request
                       (string_plus (PROMPT cfg) (optional_toString (errorMessage errorButton)))
                       (SECRET_KEY cfg)
           in Some (w\<lparr>Configuration := cfg,
                      the_cell := (the_cell w)\<lparr>node := cs @ [OutputAreaNode [stdout ''Loading...'']]\<rparr>,
                      sent := sent w @ [req]\<rparr>,
                    length cs)))"

text \<open>
  Lines 186--208, when the promise of \<^verbatim>\<open>getErrorAnalysis\<close> settles: \<^verbatim>\<open>then\<close> clears the
  model and adds the answer, \<^verbatim>\<open>catch\<close> adds the message of the error, \<^verbatim>\<open>finally\<close>
  enables the button. The error is logged once in \<^verbatim>\<open>getErrorAnalysis\<close> and once in
  \<^verbatim>\<open>catch\<close>. \<open>i\<close> is the position of the button and \<open>a\<close> the position of the output
  area of this run; children are only ever appended to a node, so both positions stay
  valid whatever happens between the click and the settlement. \<^verbatim>\<open>model.add\<close> is
  modelled as one more entry at the end of the model: the host's model may join two
  adjacent stream entries of the same name into one entry, which holds the text of both.
\<close>

definition onclick_settle :: "nat \<Rightarrow> nat \<Rightarrow> js_error + response \<Rightarrow> world \<Rightarrow> world" where
  "onclick_settle i a settled w =
     (case getErrorAnalysis_result settled of
        Inr outputText \<Rightarrow>
          w\<lparr>the_cell := (the_cell w)\<lparr>node :=
               set_disabled i False
                 (update_model a (\<lambda>m. [] @ [stdout outputText]) (node (the_cell w)))\<rparr>\<rparr>
      | Inl error \<Rightarrow>
          w\<lparr>the_cell := (the_cell w)\<lparr>node :=
               set_disabled i False
                 (update_model a (\<lambda>m. m @ [stdout (error_message error)]) (node (the_cell w)))\<rparr>,
            console := console w @ [error, error]\<rparr>)"

text \<open>One whole run of the handler, with nothing else happening in between.\<close>

definition onclick :: "nat \<Rightarrow> dialog_result \<Rightarrow> js_error + response \<Rightarrow> world \<Rightarrow> world option" where
  "onclick i result settled w =
     (case onclick_begin i result w of
        None \<Rightarrow> None
      | Some (w1, a) \<Rightarrow> Some (onclick_settle i a settled w1))"

subsection \<open>The input dialog as markup\<close>

text \<open>
  The constructor of \<^verbatim>\<open>InputDialog\<close> (lines 36--53) assigns a template string to
  \<^verbatim>\<open>innerHTML\<close>; the three arguments are put into the string as they are.
\<close>

definition InputDialog :: "string \<Rightarrow> string \<Rightarrow> string \<Rightarrow> string" where
  \<open>InputDialog secret_key_arg language_arg prompt_arg =
     [CHR 0x0A] @
     ''      <label>'' @ [CHR 0x0A] @
     ''        Secret Key: '' @ [CHR 0x0A] @
     ''        <input id="secret_key" value="'' @ secret_key_arg @ ''" />'' @ [CHR 0x0A] @
     ''      </label>'' @ [CHR 0x0A] @
     ''      <label>'' @ [CHR 0x0A] @
     ''        Language:'' @ [CHR 0x0A] @
     ''        <input id="language" value="'' @ language_arg @ ''" />'' @ [CHR 0x0A] @
     ''      </label>'' @ [CHR 0x0A] @
     ''      <label>'' @ [CHR 0x0A] @
     ''        Prompt:'' @ [CHR 0x0A] @
     ''        <textarea id="prompt" rows="5" cols="50">'' @ prompt_arg @ ''</textarea>''
       @ [CHR 0x0A] @
     ''      </label>'' @ [CHR 0x0A] @
     ''    ''\<close>

text \<open>
  What the browser makes of the string is not part of \<^verbatim>\<open>index.ts\<close>. It is modelled
  after the tokenizer of the HTML standard, one character at a time, for the markup
  that occurs here: start tags with double-quoted or unquoted attribute values, end
  tags, and the text of a \<^verbatim>\<open>textarea\<close>, which runs to the next \<^verbatim>\<open></textarea>\<close> and
  loses one leading line feed. Character references and upper-case names are left out;
  none occurs in the template or in the examples. The result is the list of elements in
  document order, each with its attributes and, for a \<^verbatim>\<open>textarea\<close>, its text.
\<close>

datatype element = Element (tag: string) (attrs: "(string \<times> string) list") (inner: string)

datatype reader_state =
    Data | TagOpen | EndTag | TagName | BeforeAttributeName | AttributeName
  | BeforeAttributeValue | AttributeValueQuoted | AfterAttributeValueQuoted
  | AttributeValueUnquoted | TextareaStart | Textarea

record reader =
  state :: reader_state
  tag_name :: string
  attributes :: "(string \<times> string) list"
  attr_name :: string
  attr_value :: string
  textarea_text :: string
  elements :: "element list"

definition is_space :: "char \<Rightarrow> bool" where
  "is_space c = (c = CHR '' '' \<or> c = CHR 0x0A \<or> c = CHR 0x09 \<or> c = CHR 0x0D)"

definition push_attribute :: "reader \<Rightarrow> reader" where
  "push_attribute r = r\<lparr>attributes := attributes r @ [(attr_name r, attr_value r)]\<rparr>"

definition close_start_tag :: "reader \<Rightarrow> reader" where
  "close_start_tag r =
     (if tag_name r = ''textarea'' then r\<lparr>state := TextareaStart, textarea_text := []\<rparr>
      else r\<lparr>state := Data,
             elements := elements r @ [Element (tag_name r) (attributes r) []]\<rparr>)"

definition textarea_char :: "reader \<Rightarrow> char \<Rightarrow> string \<Rightarrow> reader" where
  \<open>textarea_char r c rest =
     (if c = CHR ''<'' \<and> take 10 rest = ''/textarea>'' then
        r\<lparr>state := TagOpen,
          elements := elements r @ [Element (tag_name r) (attributes r) (textarea_text r)]\<rparr>
      else r\<lparr>state := Textarea, textarea_text := textarea_text r @ [c]\<rparr>)\<close>

text \<open>One character \<open>c\<close>, with the characters after it in \<open>rest\<close>.\<close>

definition reader_step :: "reader \<Rightarrow> char \<Rightarrow> string \<Rightarrow> reader" where
  \<open>reader_step r c rest =
     (case state r of
        Data \<Rightarrow> (if c = CHR ''<'' then r\<lparr>state := TagOpen\<rparr> else r)
      | TagOpen \<Rightarrow>
          (if c = CHR ''/'' then r\<lparr>state := EndTag\<rparr>
           else if c = CHR ''<'' then r
           else if is_space c \<or> c = CHR ''>'' then r\<lparr>state := Data\<rparr>
           else r\<lparr>state := TagName, tag_name := [c], attributes := []\<rparr>)
      | EndTag \<Rightarrow> (if c = CHR ''>'' then r\<lparr>state := Data\<rparr> else r)
      | TagName \<Rightarrow>
          (if is_space c \<or> c = CHR ''/'' then r\<lparr>state := BeforeAttributeName\<rparr>
           else if c = CHR ''>'' then close_start_tag r
           else r\<lparr>tag_name := tag_name r @ [c]\<rparr>)
      | BeforeAttributeName \<Rightarrow>
          (if is_space c \<or> c = CHR ''/'' then r
           else if c = CHR ''>'' then close_start_tag r
           else r\<lparr>state := AttributeName, attr_name := [c], attr_value := []\<rparr>)
      | AttributeName \<Rightarrow>
          (if c = CHR ''='' then r\<lparr>state := BeforeAttributeValue\<rparr>
           else if is_space c \<or> c = CHR ''/'' then
             (push_attribute r)\<lparr>state := BeforeAttributeName\<rparr>
           else if c = CHR ''>'' then close_start_tag (push_attribute r)
           else r\<lparr>attr_name := attr_name r @ [c]\<rparr>)
      | BeforeAttributeValue \<Rightarrow>
          (if is_space c then r
           else if c = CHR 0x22 then r\<lparr>state := AttributeValueQuoted\<rparr>
           else if c = CHR ''>'' then close_start_tag (push_attribute r)
           else r\<lparr>state := AttributeValueUnquoted, attr_value := [c]\<rparr>)
      | AttributeValueQuoted \<Rightarrow>
          (if c = CHR 0x22 then (push_attribute r)\<lparr>state := AfterAttributeValueQuoted\<rparr>
           else r\<lparr>attr_value := attr_value r @ [c]\<rparr>)
      | AfterAttributeValueQuoted \<Rightarrow>
          (if is_space c \<or> c = CHR ''/'' then r\<lparr>state := BeforeAttributeName\<rparr>
           else if c = CHR ''>'' then close_start_tag r
           else r\<lparr>state := AttributeName, attr_name := [c], attr_value := []\<rparr>)
      | AttributeValueUnquoted \<Rightarrow>
          (if is_space c then (push_attribute r)\<lparr>state := BeforeAttributeName\<rparr>
           else if c = CHR ''>'' then close_start_tag (push_attribute r)
           else r\<lparr>attr_value := attr_value r @ [c]\<rparr>)
      | TextareaStart \<Rightarrow>
          (if c = CHR 0x0A then r\<lparr>state := Textarea\<rparr> else textarea_char r c rest)
      | Textarea \<Rightarrow> textarea_char r c rest)\<close>

fun read_markup :: "reader \<Rightarrow> string \<Rightarrow> element list" where
  "read_markup r [] =
     (if state r = Textarea \<or> state r = TextareaStart
      then elements r @ [Element (tag_name r) (attributes r) (textarea_text r)]
      else elements r)"
| "read_markup r (c # rest) = read_markup (reader_step r c rest) rest"

definition innerHTML_elements :: "string \<Rightarrow> element list" where
  "innerHTML_elements markup =
     read_markup \<lparr>state = Data, tag_name = [], attributes = [], attr_name = [],
                  attr_value = [], textarea_text = [], elements = []\<rparr> markup"

text \<open>
  \<^verbatim>\<open>querySelector('#id')\<close>: the first element in document order with that \<^verbatim>\<open>id\<close>,
  and the \<^verbatim>\<open>value\<close> the element starts with: the \<^verbatim>\<open>value\<close> attribute of an
  \<^verbatim>\<open>input\<close>, the text of a \<^verbatim>\<open>textarea\<close>.
\<close>

definition querySelector :: "element list \<Rightarrow> string \<Rightarrow> element option" where
  "querySelector els ident = find (\<lambda>e. map_of (attrs e) ''id'' = Some ident) els"

definition initial_value :: "element \<Rightarrow> string" where
  "initial_value e =
     (if tag e = ''textarea'' then inner e
      else (case map_of (attrs e) ''value'' of None \<Rightarrow> [] | Some v \<Rightarrow> v))"

text \<open>
  What the user does with the open dialog: for each of the three elements that
  \<^verbatim>\<open>getValue\<close> reads, either leaves it as it is or replaces its content, and then
  presses OK or Cancel.
\<close>

record user =
  typed_secret_key :: "string option"
  typed_language :: "string option"
  typed_prompt :: "string option"
  press_ok :: bool

definition field_value :: "element list \<Rightarrow> string \<Rightarrow> string option \<Rightarrow> string option" where
  "field_value els ident typed =
     (case querySelector els ident of
        None \<Rightarrow> None
      | Some e \<Rightarrow> Some (case typed of None \<Rightarrow> initial_value e | Some t \<Rightarrow> t))"

text \<open>
  \<^verbatim>\<open>getValue\<close> (lines 55--61) on the markup of the dialog after the user's edits;
  \<open>None\<close> when one of the three \<^verbatim>\<open>querySelector\<close> calls finds nothing, where reading
  \<^verbatim>\<open>.value\<close> throws.
\<close>

definition InputDialog_getValue :: "string \<Rightarrow> user \<Rightarrow> dialog_value option" where
  "InputDialog_getValue markup u =
     (let els = innerHTML_elements markup in
      case field_value els ''secret_key'' (typed_secret_key u) of
        None \<Rightarrow> None
      | Some k \<Rightarrow>
          (case field_value els ''language'' (typed_language u) of
             None \<Rightarrow> None
           | Some l \<Rightarrow>
               (case field_value els ''prompt'' (typed_prompt u) of
                  None \<Rightarrow> None
                | Some p \<Rightarrow> Some \<lparr>secret_key = k, language = l, prompt = p\<rparr>)))"

text \<open>
  The click handler with its dialog (lines 157--170 before the rest of the handler):
  when the key is empty the dialog is built from the three stored values, and on OK the
  values read back from it are the ones assigned. Where the source does not call
  \<^verbatim>\<open>getValue\<close>, the answer handed to \<open>onclick_begin\<close> carries empty fields, which
  \<open>onclick_begin\<close> does not read.
\<close>

datatype click_outcome = GetValueThrew | NoButton | Issued world nat

definition unread_answer :: dialog_result where
  "unread_answer =
     \<lparr>accept = False, getValue = \<lparr>secret_key = [], language = [], prompt = []\<rparr>\<rparr>"

definition issued :: "(world \<times> nat) option \<Rightarrow> click_outcome" where
  "issued x = (case x of None \<Rightarrow> NoButton | Some (w, a) \<Rightarrow> Issued w a)"

definition onclick_with_dialog :: "nat \<Rightarrow> user \<Rightarrow> world \<Rightarrow> click_outcome" where
  "onclick_with_dialog i u w =
     (if SECRET_KEY (Configuration w) = [] then
        (let dialog = InputDialog (SECRET_KEY (Configuration w)) (LANGUAGE (Configuration w))
                        (PROMPT (Configuration w))
         in if press_ok u then
              (case InputDialog_getValue dialog u of
                 None \<Rightarrow> GetValueThrew
               | Some output \<Rightarrow> issued (onclick_begin i \<lparr>accept = True, getValue = output\<rparr> w))
            else issued (onclick_begin i unread_answer w))
      else issued (onclick_begin i unread_answer w))"

definition issued_requests :: "click_outcome \<Rightarrow> request list" where
  "issued_requests x =
     (case x of GetValueThrew \<Rightarrow> [] | NoButton \<Rightarrow> [] | Issued w a \<Rightarrow> sent w)"

subsection \<open>Example values\<close>

definition example_error_cell :: cell where
  "example_error_cell =
     \<lparr>ctype = ''code'',
      outputs = [\<lparr>otype = ''error'', stderr = Some ''ZeroDivisionError: division by zero''\<rparr>],
      node = [HostNode ''input'']\<rparr>"

definition example_world :: world where
  "example_world =
     \<lparr>Configuration = Configuration_init ''Explain this Python error: '',
      the_cell = scan_cell example_error_cell,
      sent = [],
      console = []\<rparr>"

definition cancelled_dialog :: dialog_result where
  "cancelled_dialog =
     \<lparr>accept = False,
      getValue = \<lparr>secret_key = ''sk-typed'', language = ''KR'',
                  prompt = ''Explain this Python error: ''\<rparr>\<rparr>"

definition accepted_dialog :: dialog_result where
  "accepted_dialog =
     \<lparr>accept = True,
      getValue = \<lparr>secret_key = ''sk-test'', language = ''EN'', prompt = ''P''\<rparr>\<rparr>"

definition example_missing_payload_cell :: cell where
  "example_missing_payload_cell =
     \<lparr>ctype = ''code'',
      outputs = [\<lparr>otype = ''error'', stderr = None\<rparr>],
      node = [HostNode ''input'']\<rparr>"

definition example_cleared_cell :: cell where
  "example_cleared_cell =
     \<lparr>ctype = ''code'',
      outputs = [\<lparr>otype = ''execute_result'', stderr = None\<rparr>],
      node = [HostNode ''input'',
              Button \<lparr>innerText = ''Analyze Error'', className = ''error-button'',
                      disabled = False,
                      errorMessage = Some ''ZeroDivisionError: division by zero''\<rparr>,
              OutputAreaNode [stdout ''Fix: check denominator'']]\<rparr>"


text \<open>
  Two stored configurations with an empty key that differ only in the language, and a
  user who types a key into the dialog and presses OK.
\<close>

definition example_empty_key_world :: "string \<Rightarrow> world" where
  "example_empty_key_world lang =
     \<lparr>Configuration = \<lparr>SECRET_KEY = [], LANGUAGE = lang, PROMPT = ''P''\<rparr>,
      the_cell = scan_cell example_error_cell,
      sent = [],
      console = []\<rparr>"

definition example_language_markup :: string where
  \<open>example_language_markup = ''"><textarea id="prompt">Q</textarea><input value="''\<close>

definition example_user :: user where
  "example_user =
     \<lparr>typed_secret_key = Some ''sk-test'', typed_language = None, typed_prompt = None,
      press_ok = True\<rparr>"

section \<open>Properties\<close>

subsection \<open>Helper lemmas\<close>

lemma spec_flagged_iff:
  "spec_flagged c = (ctype c = ''code'' \<and> length (outputs c) > 0 \<and> otype (outputs c ! 0) = ''error'')"
  by (cases "outputs c") (simp_all add: spec_flagged_def)

lemma scan_cell_not_flagged: "\<not> spec_flagged c \<Longrightarrow> scan_cell c = c"
  by (auto simp: spec_flagged_iff scan_cell_def checkForErrors_def)

lemma scan_cell_flagged:
  "spec_flagged c \<Longrightarrow>
   scan_cell c =
     c\<lparr>node := node c @ [Button \<lparr>innerText = ''Analyze Error'', className = ''error-button'',
                                 disabled = False, errorMessage = stderr (hd (outputs c))\<rparr>]\<rparr>"
  by (cases "outputs c") (auto simp: spec_flagged_def scan_cell_def checkForErrors_def)

lemma scan_cell_keeps_flag: "spec_flagged (scan_cell c) = spec_flagged c"
  by (cases "spec_flagged c")
     (simp_all add: scan_cell_not_flagged scan_cell_flagged, simp add: spec_flagged_def)

lemma scan_cell_keeps_outputs: "outputs (scan_cell c) = outputs c"
  by (cases "spec_flagged c") (simp_all add: scan_cell_not_flagged scan_cell_flagged)

lemma funpow_scan_not_flagged: "\<not> spec_flagged c \<Longrightarrow> (scan_cell ^^ n) c = c"
  by (induction n) (simp_all add: scan_cell_not_flagged)

lemma funpow_scan_keeps_flag: "spec_flagged ((scan_cell ^^ n) c) = spec_flagged c"
  by (induction n) (simp_all add: scan_cell_keeps_flag)

lemma funpow_scan_keeps_outputs: "outputs ((scan_cell ^^ n) c) = outputs c"
  by (induction n) (simp_all add: scan_cell_keeps_outputs)

lemma funpow_scan_flagged:
  "spec_flagged c \<Longrightarrow>
   node ((scan_cell ^^ n) c) =
     node c @ replicate n (Button \<lparr>innerText = ''Analyze Error'', className = ''error-button'',
                                   disabled = False, errorMessage = stderr (hd (outputs c))\<rparr>)"
proof (induction n)
  case 0
  then show ?case by simp
next
  case (Suc n)
  have "spec_flagged ((scan_cell ^^ n) c)"
    using Suc.prems by (simp add: funpow_scan_keeps_flag)
  then show ?case
    using Suc by (simp add: scan_cell_flagged funpow_scan_keeps_outputs replicate_append_same)
qed

text \<open>
  C5. The scan attaches a control to a cell exactly when the cell is a code cell with a
  non-empty output list whose first entry is tagged ``error'': for such a cell the scan
  adds one control to the node, and for every other cell the node is left as it is, by
  any number of scans, so no control is ever attached to it. The same holds cell by cell
  for the scan over all cells of a notebook.
\<close>

theorem scan_attaches_iff_flagged:
  "(length (controls (scan_cell c)) = Suc (length (controls c))) = spec_flagged c
   \<and> (node (scan_cell c) \<noteq> node c) = spec_flagged c
   \<and> (\<not> spec_flagged c \<longrightarrow> controls ((scan_cell ^^ n) c) = controls c)
   \<and> length (scan_widgets widgets) = length widgets
   \<and> (\<forall>k < length widgets.
         (node (scan_widgets widgets ! k) \<noteq> node (widgets ! k)) = spec_flagged (widgets ! k))"
proof -
  have changed: "(node (scan_cell d) \<noteq> node d) = spec_flagged d" for d
    by (cases "spec_flagged d") (simp_all add: scan_cell_flagged scan_cell_not_flagged)
  have one: "(length (controls (scan_cell c)) = Suc (length (controls c))) = spec_flagged c"
    by (cases "spec_flagged c")
       (simp_all add: scan_cell_flagged scan_cell_not_flagged controls_def)
  have never: "\<not> spec_flagged c \<longrightarrow> controls ((scan_cell ^^ n) c) = controls c"
    by (simp add: funpow_scan_not_flagged)
  show ?thesis
    using one changed never by (simp add: scan_widgets_def)
qed

theorem scan_attaches_iff_flagged_witness:
  "\<not> spec_flagged example_cleared_cell
   \<and> controls ((scan_cell ^^ 3) example_cleared_cell) = controls example_cleared_cell
   \<and> spec_flagged example_error_cell
   \<and> length (controls (scan_cell example_error_cell)) = 1
   \<and> map (length \<circ> node) (scan_widgets [example_error_cell, example_cleared_cell]) = [2, 3]"
  using scan_attaches_iff_flagged [of example_cleared_cell 3 "[]"]
        scan_attaches_iff_flagged [of example_error_cell 0 "[example_error_cell, example_cleared_cell]"]
  by (simp add: spec_flagged_def example_error_cell_def example_cleared_cell_def controls_def
        scan_widgets_def scan_cell_def checkForErrors_def)

subsection \<open>Helper lemmas on the click handler\<close>

lemma length_set_disabled: "length (set_disabled i v cs) = length cs"
  by (simp add: set_disabled_def split: option.splits)

lemma length_update_model: "length (update_model a f cs) = length cs"
  by (simp add: update_model_def split: option.splits)

lemma button_at_lt: "button_at cs i = Some b \<Longrightarrow> i < length cs"
  by (simp add: button_at_def split: if_splits)

lemma button_at_set_disabled:
  "button_at cs i = Some b \<Longrightarrow> button_at (set_disabled i v cs) i = Some (b\<lparr>disabled := v\<rparr>)"
  by (simp add: set_disabled_def button_at_def split: if_splits)

lemma button_at_append: "i < length cs \<Longrightarrow> button_at (cs @ ds) i = button_at cs i"
  by (simp add: button_at_def nth_append)

lemma button_at_update_model: "button_at (update_model a f cs) i = button_at cs i"
  by (cases "i = a")
     (auto simp: update_model_def button_at_def area_at_def
        split: option.splits child.splits if_splits)

lemma onclick_begin_Some:
  "button_at (node (the_cell w)) i = Some b \<Longrightarrow>
   onclick_begin i result w =
     Some (w\<lparr>Configuration :=
               (if SECRET_KEY (Configuration w) = [] then apply_dialog result (Configuration w)
                else Configuration w),
             the_cell := (the_cell w)\<lparr>node :=
               set_disabled i True (node (the_cell w)) @ [OutputAreaNode [stdout ''Loading...'']]\<rparr>,
             sent := sent w @
               [getErrorAnalysis_request
                  (string_plus
                     (PROMPT (if SECRET_KEY (Configuration w) = []
                              then apply_dialog result (Configuration w) else Configuration w))
                     (errorMessage b))
                  (SECRET_KEY (if SECRET_KEY (Configuration w) = []
                               then apply_dialog result (Configuration w) else Configuration w))]\<rparr>,
           length (node (the_cell w)))"
  by (cases "errorMessage b")
     (simp_all add: onclick_begin_def Let_def optional_toString_def length_set_disabled)

lemma onclick_begin_button:
  "onclick_begin i result w = Some (w1, a) \<Longrightarrow> \<exists>b. button_at (node (the_cell w)) i = Some b"
  by (cases "button_at (node (the_cell w)) i") (simp_all add: onclick_begin_def)

lemma node_onclick_settle:
  "node (the_cell (onclick_settle i a settled w)) =
     set_disabled i False
       (update_model a
          (case getErrorAnalysis_result settled of
             Inr outputText \<Rightarrow> (\<lambda>m. [stdout outputText])
           | Inl error \<Rightarrow> (\<lambda>m. m @ [stdout (error_message error)]))
          (node (the_cell w)))"
  by (simp add: onclick_settle_def split: sum.splits)




subsection \<open>Scans of a cell\<close>

text \<open>
  C2, as the claim states it, fails: a second scan of a cell whose first output is still
  tagged ``error'' leaves two controls in the cell's node.
\<close>

theorem rescan_stacks_controls_counterexample:
  "spec_flagged example_error_cell
   \<and> spec_flagged (scan_cell example_error_cell)
   \<and> length (controls (scan_cell example_error_cell)) = 1
   \<and> length (controls (scan_cell (scan_cell example_error_cell))) = 2"
  by (simp add: spec_flagged_def example_error_cell_def controls_def scan_cell_def
        checkForErrors_def)

text \<open>
  C2, amended. Every scan of a cell whose first output is tagged ``error'' appends one
  fresh control, bound to the payload of that output, after the children the node
  already has; nothing is replaced. After \<open>n\<close> scans the node holds its former children
  followed by \<open>n\<close> such controls, so the number of controls has grown by \<open>n\<close>.
\<close>

theorem rescans_append_controls:
  assumes "ctype c = ''code''" and "outputs c = e # es" and "otype e = ''error''"
  shows "node ((scan_cell ^^ n) c) =
           node c @ replicate n (Button \<lparr>innerText = ''Analyze Error'',
                                          className = ''error-button'',
                                          disabled = False, errorMessage = stderr e\<rparr>)
         \<and> length (controls ((scan_cell ^^ n) c)) = length (controls c) + n"
proof -
  have flagged: "spec_flagged c"
    using assms by (simp add: spec_flagged_def)
  have "node ((scan_cell ^^ n) c) =
          node c @ replicate n (Button \<lparr>innerText = ''Analyze Error'',
                                         className = ''error-button'',
                                         disabled = False, errorMessage = stderr e\<rparr>)"
    using funpow_scan_flagged [OF flagged, of n] assms(2) by simp
  then show ?thesis
    by (simp add: controls_def)
qed

theorem rescans_append_controls_witness:
  "node ((scan_cell ^^ 3) example_error_cell) =
     [HostNode ''input'',
      Button \<lparr>innerText = ''Analyze Error'', className = ''error-button'', disabled = False,
              errorMessage = Some ''ZeroDivisionError: division by zero''\<rparr>,
      Button \<lparr>innerText = ''Analyze Error'', className = ''error-button'', disabled = False,
              errorMessage = Some ''ZeroDivisionError: division by zero''\<rparr>,
      Button \<lparr>innerText = ''Analyze Error'', className = ''error-button'', disabled = False,
              errorMessage = Some ''ZeroDivisionError: division by zero''\<rparr>]
   \<and> length (controls ((scan_cell ^^ 3) example_error_cell)) = 3"
  using rescans_append_controls
          [of example_error_cell
              "\<lparr>otype = ''error'', stderr = Some ''ZeroDivisionError: division by zero''\<rparr>"
              "[]" 3]
  by (simp add: example_error_cell_def controls_def numeral_3_eq_3)

text \<open>
  C3, as the claim states it, fails: a code cell whose output list no longer starts with
  an error, and whose node still holds a control and a result region from before, keeps
  both through the scan.
\<close>

theorem cleared_error_keeps_control_counterexample:
  "\<not> spec_flagged example_cleared_cell
   \<and> controls (scan_cell example_cleared_cell) =
       [Button \<lparr>innerText = ''Analyze Error'', className = ''error-button'', disabled = False,
                errorMessage = Some ''ZeroDivisionError: division by zero''\<rparr>]
   \<and> result_regions (scan_cell example_cleared_cell) =
       [OutputAreaNode [stdout ''Fix: check denominator'']]"
  by (simp add: spec_flagged_def example_cleared_cell_def controls_def result_regions_def
        scan_cell_def checkForErrors_def)

text \<open>
  C3, amended. A scan that finds no first output tagged ``error'' does nothing to the
  cell: the node keeps every child it had, so the controls and the result regions that
  were there before the scan are there after it.
\<close>

theorem scan_without_error_changes_nothing:
  assumes "outputs c = [] \<or> otype (hd (outputs c)) \<noteq> ''error''"
  shows "scan_cell c = c
         \<and> controls (scan_cell c) = controls c
         \<and> result_regions (scan_cell c) = result_regions c"
proof -
  have "\<not> spec_flagged c"
    using assms by (auto simp: spec_flagged_def)
  then show ?thesis
    by (simp add: scan_cell_not_flagged)
qed

theorem scan_without_error_changes_nothing_witness:
  "otype (hd (outputs example_cleared_cell)) \<noteq> ''error''
   \<and> scan_cell example_cleared_cell = example_cleared_cell
   \<and> length (controls (scan_cell example_cleared_cell)) = 1
   \<and> length (result_regions (scan_cell example_cleared_cell)) = 1"
proof -
  have h: "outputs example_cleared_cell = []
           \<or> otype (hd (outputs example_cleared_cell)) \<noteq> ''error''"
    by (simp add: example_cleared_cell_def)
  show ?thesis
    using scan_without_error_changes_nothing [OF h]
    by (simp add: example_cleared_cell_def controls_def result_regions_def)
qed

subsection \<open>One run of the click handler\<close>

text \<open>
  C1. With an empty key the handler opens the dialog; when the dialog is cancelled the
  handler still goes on: the button is disabled, the loading line is shown, and a
  request is issued with the empty key.
\<close>

theorem cancelled_dialog_still_issues_request:
  "onclick_begin 1 cancelled_dialog example_world =
     Some (\<lparr>Configuration =
              \<lparr>SECRET_KEY = [], LANGUAGE = ''KR'', PROMPT = ''Explain this Python error: ''\<rparr>,
            the_cell =
              \<lparr>ctype = ''code'',
               outputs = [\<lparr>otype = ''error'',
                           stderr = Some ''ZeroDivisionError: division by zero''\<rparr>],
               node = [HostNode ''input'',
                       Button \<lparr>innerText = ''Analyze Error'', className = ''error-button'',
                               disabled = True,
                               errorMessage = Some ''ZeroDivisionError: division by zero''\<rparr>,
                       OutputAreaNode [stdout ''Loading...'']]\<rparr>,
            sent =
              [\<lparr>url = ''https://api.openai.com/v1/chat/completions'',
                model = ''gpt-3.5-turbo'',
                messages =
                  [\<lparr>role = ''user'',
                    content =
                      ''Explain this Python error: ZeroDivisionError: division by zero''\<rparr>],
                headers = [(''Content-Type'', ''application/json''),
                           (''Authorization'', ''Bearer '')]\<rparr>],
            console = []\<rparr>,
           2)"
  by (simp add: onclick_begin_def example_world_def cancelled_dialog_def
        Configuration_init_def example_error_cell_def scan_cell_def checkForErrors_def
        apply_dialog_def set_disabled_def button_at_def area_at_def getErrorAnalysis_request_def string_plus_def
        optional_toString_def)

text \<open>
  C4. When the remote call is rejected, the message of the error is added to the model
  of the output area without clearing it first: the area holds the loading line
  followed by the message.
\<close>

theorem rejected_call_keeps_loading_line:
  "map_option (node \<circ> the_cell)
     (onclick 1 accepted_dialog (Inl (AxiosError ''Request failed with status code 401''))
        example_world) =
     Some [HostNode ''input'',
           Button \<lparr>innerText = ''Analyze Error'', className = ''error-button'',
                   disabled = False,
                   errorMessage = Some ''ZeroDivisionError: division by zero''\<rparr>,
           OutputAreaNode [stdout ''Loading...'',
                           stdout ''Request failed with status code 401'']]"
  by (simp add: onclick_def onclick_begin_def onclick_settle_def example_world_def
        accepted_dialog_def Configuration_init_def example_error_cell_def scan_cell_def
        checkForErrors_def apply_dialog_def set_disabled_def button_at_def area_at_def update_model_def
        getErrorAnalysis_result_def)

text \<open>
  C8. A flagged cell whose first output has no payload still gets its control, but the
  prompt that is sent for it ends in the word ``undefined'', not in the empty text.
\<close>

theorem missing_payload_sends_undefined:
  "controls (scan_cell example_missing_payload_cell) =
     [Button \<lparr>innerText = ''Analyze Error'', className = ''error-button'', disabled = False,
              errorMessage = None\<rparr>]
   \<and> map_option (map messages \<circ> sent \<circ> fst)
       (onclick_begin 1 accepted_dialog
          (example_world\<lparr>the_cell := scan_cell example_missing_payload_cell\<rparr>)) =
       Some [[\<lparr>role = ''user'', content = ''Pundefined''\<rparr>]]"
  by (simp add: onclick_begin_def example_world_def accepted_dialog_def
        Configuration_init_def example_missing_payload_cell_def scan_cell_def
        checkForErrors_def apply_dialog_def set_disabled_def button_at_def area_at_def getErrorAnalysis_request_def
        string_plus_def optional_toString_def controls_def)



text \<open>
  C7. A run of the handler disables its button before the request is issued, and when
  the request settles, with an answer or with an error, the button is enabled again.
  The same holds when other children were appended to the node in between, as long as
  the button is still child \<open>i\<close>.
\<close>

theorem control_reenabled_when_settled:
  "(onclick_begin i result w = Some (w1, a) \<longrightarrow>
      map_option disabled (button_at (node (the_cell w1)) i) = Some True
      \<and> map_option disabled (button_at (node (the_cell (onclick_settle i a settled w1))) i) =
          Some False)
   \<and> (button_at (node (the_cell w2)) i = Some b \<longrightarrow>
        button_at (node (the_cell (onclick_settle i a settled w2))) i =
          Some (b\<lparr>disabled := False\<rparr>))"
proof -
  have later: "button_at (node (the_cell (onclick_settle i a settled w'))) i =
                 Some (b'\<lparr>disabled := False\<rparr>)"
    if "button_at (node (the_cell w')) i = Some b'" for w' b'
    using that
    by (simp add: node_onclick_settle button_at_set_disabled button_at_update_model)
  have run: "map_option disabled (button_at (node (the_cell w1)) i) = Some True
             \<and> map_option disabled
                 (button_at (node (the_cell (onclick_settle i a settled w1))) i) = Some False"
    if begun: "onclick_begin i result w = Some (w1, a)"
  proof -
    obtain b0 where b0: "button_at (node (the_cell w)) i = Some b0"
      using onclick_begin_button [OF begun] by blast
    have "node (the_cell w1) =
            set_disabled i True (node (the_cell w)) @ [OutputAreaNode [stdout ''Loading...'']]"
      using onclick_begin_Some [OF b0, of result] begun by auto
    moreover have "i < length (set_disabled i True (node (the_cell w)))"
      using button_at_lt [OF b0] by (simp add: length_set_disabled)
    ultimately have b1: "button_at (node (the_cell w1)) i = Some (b0\<lparr>disabled := True\<rparr>)"
      using button_at_set_disabled [OF b0, of True]
      by (simp only: button_at_append)
    show ?thesis
      using b1 later [OF b1] by simp
  qed
  show ?thesis
    using run later by blast
qed

theorem control_reenabled_when_settled_witness:
  "map_option (map_option disabled \<circ> (\<lambda>cs. button_at cs 1) \<circ> node \<circ> the_cell)
     (onclick 1 accepted_dialog (Inl (AxiosError ''Network Error'')) example_world) =
     Some (Some False)
   \<and> map_option (map_option disabled \<circ> (\<lambda>cs. button_at cs 1) \<circ> node \<circ> the_cell)
       (onclick 1 accepted_dialog
          (Inr \<lparr>choices = [\<lparr>message = \<lparr>role = ''assistant'', content = ''Fix it''\<rparr>\<rparr>]\<rparr>)
          example_world) =
       Some (Some False)"
proof -
  have b: "button_at (node (the_cell example_world)) 1 =
             Some \<lparr>innerText = ''Analyze Error'', className = ''error-button'',
                   disabled = False,
                   errorMessage = Some ''ZeroDivisionError: division by zero''\<rparr>"
    by (simp add: example_world_def example_error_cell_def scan_cell_def checkForErrors_def
          button_at_def)
  obtain w1 a where acc: "onclick_begin 1 accepted_dialog example_world = Some (w1, a)"
    using onclick_begin_Some [OF b] by blast
  show ?thesis
    using control_reenabled_when_settled
            [of 1 accepted_dialog example_world w1 a "Inl (AxiosError ''Network Error'')"]
          control_reenabled_when_settled
            [of 1 accepted_dialog example_world w1 a
                "Inr \<lparr>choices = [\<lparr>message = \<lparr>role = ''assistant'', content = ''Fix it''\<rparr>\<rparr>]\<rparr>"]
          acc
    by (simp add: onclick_def)
qed




text \<open>
  C10. Two runs with an empty stored key, the same stored prompt, the same cell and the
  same user, who types a key into the dialog and presses OK, differ only in the stored
  language. The language is written into the markup of the dialog as it is; when it
  holds markup of its own, the element that the handler reads the prompt from is one
  that the language supplied, and the two requests differ in their content.
\<close>

theorem language_markup_changes_request:
  "issued_requests (onclick_with_dialog 1 example_user (example_empty_key_world ''KR'')) =
     [\<lparr>url = ''https://api.openai.com/v1/chat/completions'',
       model = ''gpt-3.5-turbo'',
       messages = [\<lparr>role = ''user'', content = ''PZeroDivisionError: division by zero''\<rparr>],
       headers = [(''Content-Type'', ''application/json''),
                  (''Authorization'', ''Bearer sk-test'')]\<rparr>]
   \<and> issued_requests
       (onclick_with_dialog 1 example_user (example_empty_key_world example_language_markup)) =
     [\<lparr>url = ''https://api.openai.com/v1/chat/completions'',
       model = ''gpt-3.5-turbo'',
       messages = [\<lparr>role = ''user'', content = ''QZeroDivisionError: division by zero''\<rparr>],
       headers = [(''Content-Type'', ''application/json''),
                  (''Authorization'', ''Bearer sk-test'')]\<rparr>]"
proof -
  have benign:
    "InputDialog_getValue (InputDialog [] ''KR'' ''P'') example_user =
       Some \<lparr>secret_key = ''sk-test'', language = ''KR'', prompt = ''P''\<rparr>"
    by code_simp
  have markup:
    "InputDialog_getValue (InputDialog [] example_language_markup ''P'') example_user =
       Some \<lparr>secret_key = ''sk-test'', language = [], prompt = ''Q''\<rparr>"
    by code_simp
  have ok: "press_ok example_user"
    by (simp add: example_user_def)
  show ?thesis
    using benign markup ok
    by (simp add: onclick_with_dialog_def example_empty_key_world_def issued_def
          issued_requests_def onclick_begin_def apply_dialog_def example_error_cell_def
          scan_cell_def checkForErrors_def button_at_def set_disabled_def
          getErrorAnalysis_request_def string_plus_def optional_toString_def)
qed

end
